theory Spec2Isabelle
  imports Complex_Main "HOL-Library.AList" "HOL-Library.Multiset"
    "HOL-Library.Char_ord" "HOL-Library.List_Lexorder" "HOL-Library.Sublist"
begin

section \<open>Data model of prediction\_server.py\<close>

text \<open>
  Python floats are modelled as exact rationals: the arithmetic of the source is the
  arithmetic of the model, without the rounding error of IEEE doubles. Strings are lists
  of code points below 256. Timestamps are naive datetimes, counted in microseconds.
\<close>

type_synonym number = rat
type_synonym datetime = int

record OutcomeData =
  name :: string
  probability :: "number option"
  yesPrice :: "number option"
  noPrice :: "number option"
  volume_usd :: "number option"

record AnalyzeRequest =
  market_id :: "string option"
  market_title :: string
  market_url :: "string option"
  total_volume_usd :: "number option"
  outcomes :: "OutcomeData list"
  force_refresh :: bool

text \<open>
  One element of the \<open>current_odds\<close> list of the foundational result. The result is decoded
  JSON, so an element need not be a dict, and a dict need not have the two keys read here.
\<close>

datatype odds_item = NonDict | OddsDict (odds_market_title: "string option") (yes_probability: "number option")

text \<open>The foundational result dict; \<open>current_odds = None\<close> is a dict without that key.\<close>

record FoundationalData =
  current_odds :: "odds_item list option"
  event_query :: string
  generated_at :: datetime

datatype SentimentEnum = BULLISH | BEARISH | NEUTRAL | MIXED

text \<open>The \<open>value\<close> of a member of the enum.\<close>

fun sentiment_value :: "SentimentEnum \<Rightarrow> string" where
  "sentiment_value BULLISH = ''bullish''"
| "sentiment_value BEARISH = ''bearish''"
| "sentiment_value NEUTRAL = ''neutral''"
| "sentiment_value MIXED = ''mixed''"

text \<open>The keys of the historical result dict that the server reads, each as \<open>dict.get\<close> sees it.\<close>

record HistoricalAnalysis =
  probability_estimate :: "number option"
  overall_sentiment :: "SentimentEnum option"

text \<open>
  One per-outcome estimate. The \<open>reasoning\<close> text of the source is presentation only (it is
  built from the other fields and read by nothing) and is not part of the model.
\<close>

record GrokOutcomeEstimate =
  outcome_name :: string
  grok_probability :: number
  market_probability :: number
  delta :: number
  recommendation :: string

section \<open>Python built-ins used by the server\<close>

definition py_lower_char :: "char \<Rightarrow> char" where
  "py_lower_char c = (let n = (of_char c :: nat) in
     if (65 \<le> n \<and> n \<le> 90) \<or> (192 \<le> n \<and> n \<le> 214) \<or> (216 \<le> n \<and> n \<le> 222)
     then char_of (n + 32) else c)"

definition py_lower :: "string \<Rightarrow> string" where
  "py_lower s = map py_lower_char s"

definition py_isspace :: "char \<Rightarrow> bool" where
  "py_isspace c = ((of_char c :: nat) \<in> {9, 10, 11, 12, 13, 28, 29, 30, 31, 32, 133, 160})"

definition py_strip :: "string \<Rightarrow> string" where
  "py_strip s = rev (dropWhile py_isspace (rev (dropWhile py_isspace s)))"

text \<open>\<open>py_in s t\<close> is Python's \<open>s in t\<close> on strings: \<open>s\<close> occurs in \<open>t\<close> as a contiguous run.\<close>

fun py_in :: "string \<Rightarrow> string \<Rightarrow> bool" where
  "py_in s [] = (s = [])"
| "py_in s (c # cs) = (prefix s (c # cs) \<or> py_in s cs)"

text \<open>\<open>round(x, 1)\<close>: to one decimal place, a tie going to the even neighbour.\<close>

definition py_round1 :: "number \<Rightarrow> number" where
  "py_round1 x = (let y = x * 10; f = \<lfloor>y\<rfloor>; d = y - of_int f in
     of_int (if d < 1 / 2 then f else if 1 / 2 < d then f + 1
             else if even f then f else f + 1) / 10)"

text \<open>\<open>xs.index(x)\<close> where \<open>x\<close> is known to be in \<open>xs\<close>: the first position holding an equal element.\<close>

fun index_of :: "'a list \<Rightarrow> 'a \<Rightarrow> nat" where
  "index_of [] x = 0"
| "index_of (y # ys) x = (if y = x then 0 else Suc (index_of ys x))"

text \<open>
  \<open>xs.sort(key=k, reverse=True)\<close>: a stable sort, descending in the key; elements with equal
  keys keep their order. Python reverses, sorts stably ascending, and reverses again.
\<close>

definition py_sort_reverse :: "('a \<Rightarrow> 'k::linorder) \<Rightarrow> 'a list \<Rightarrow> 'a list" where
  "py_sort_reverse k xs = rev (sort_key k (rev xs))"

section \<open>Results of the three analysis jobs\<close>

datatype ConfidenceEnum = VERY_LOW | LOW | MEDIUM | HIGH | VERY_HIGH

text \<open>
  The object returned by \<open>research_event\<close>, with the fields the server reads, and its
  \<open>model_dump()\<close>, the dict stored as the historical result.
\<close>

datatype HistoricalAnalysisResponse =
  HistoricalAnalysisResponse (r_overall_sentiment: SentimentEnum) (r_probability_estimate: number)
    (r_overall_confidence: ConfidenceEnum)

definition model_dump :: "HistoricalAnalysisResponse \<Rightarrow> HistoricalAnalysis" where
  "model_dump r = \<lparr>probability_estimate = Some (r_probability_estimate r),
                   overall_sentiment = Some (r_overall_sentiment r)\<rparr>"

text \<open>
  A key of a decoded JSON dict whose value the server calls a method on: the key is absent,
  or holds \<open>null\<close>, or holds a value of the expected shape.
\<close>

datatype 'a json_opt = Absent | Null | Val 'a

text \<open>The dict returned by \<open>generate_prominent_figures\<close>: figures by handle, and the event.\<close>

record figures_json =
  prominent_figures_j :: "string list json_opt"
  prediction_event :: "string option json_opt"

text \<open>The \<open>summary\<close> dict of a tweet analysis, each key as \<open>dict.get\<close> sees it.\<close>

datatype summary_json =
  Summary (sentiment_trend: "string option") (alpha_count: "int option")
    (total_tweets_analyzed: "int option")

text \<open>The dict returned by \<open>analyze_tweets_for_event\<close>.\<close>

datatype analysis_json = Analysis (summary: "summary_json json_opt")

text \<open>The dict stored as the prominent-figures result.\<close>

record prominent_figures_result =
  analysis :: "analysis_json option"
  figures_meta :: figures_json

section \<open>The cache\<close>

record CachedResult =
  cache_key :: string
  created_at :: datetime
  expires_at :: datetime
  market_title_c :: string
  foundational_data :: "FoundationalData option"
  historical_analysis :: "HistoricalAnalysis option"
  prominent_figures_analysis :: "prominent_figures_result option"
  outcome_estimates :: "GrokOutcomeEstimate list option"

type_synonym cache = "string \<rightharpoonup> CachedResult"

definition CACHE_TTL_MINUTES :: int where
  "CACHE_TTL_MINUTES = 30"

text \<open>\<open>timedelta(minutes=m)\<close> in microseconds.\<close>

definition timedelta_minutes :: "int \<Rightarrow> int" where
  "timedelta_minutes m = m * 60 * 1000000"

text \<open>
  \<open>get_cached\<close> reads the global cache and the clock: the model takes both, and returns the
  cache as the lookup leaves it.
\<close>

definition get_cached :: "cache \<Rightarrow> datetime \<Rightarrow> string \<Rightarrow> CachedResult option \<times> cache" where
  "get_cached c now key =
     (case c key of
        None \<Rightarrow> (None, c)
      | Some cached \<Rightarrow>
          if expires_at cached < now then (None, c(key := None)) else (Some cached, c))"

definition set_cached :: "cache \<Rightarrow> string \<Rightarrow> CachedResult \<Rightarrow> cache" where
  "set_cached c key result = c(key \<mapsto> result)"

section \<open>The synthesizer: generate\_outcome\_estimates\<close>

text \<open>The dict \<open>foundational_odds\<close>: lower-cased market title to odds entry, in insertion order.\<close>

fun collect_odds :: "(string \<times> odds_item) list \<Rightarrow> odds_item list \<Rightarrow> (string \<times> odds_item) list" where
  "collect_odds acc [] = acc"
| "collect_odds acc (NonDict # rest) = collect_odds acc rest"
| "collect_odds acc (OddsDict t p # rest) =
     collect_odds (AList.update (py_lower (case t of None \<Rightarrow> [] | Some s \<Rightarrow> s)) (OddsDict t p) acc) rest"

definition foundational_odds :: "FoundationalData option \<Rightarrow> (string \<times> odds_item) list" where
  "foundational_odds fd =
     (case fd of
        None \<Rightarrow> []
      | Some d \<Rightarrow> (case current_odds d of None \<Rightarrow> [] | Some l \<Rightarrow> collect_odds [] l))"

text \<open>The loop over \<open>foundational_odds.items()\<close>: the first entry whose title matches, if any.\<close>

fun matching_odds :: "string \<Rightarrow> (string \<times> odds_item) list \<Rightarrow> odds_item option" where
  "matching_odds n [] = None"
| "matching_odds n ((title, odds) # rest) =
     (if py_in n title \<or> py_in title n then Some odds else matching_odds n rest)"

definition market_prob :: "OutcomeData \<Rightarrow> number" where
  "market_prob outcome =
     (case probability outcome of
        Some p \<Rightarrow> if p \<noteq> 0 then p else
          (case yesPrice outcome of
             Some y \<Rightarrow> if y \<noteq> 0 then (if y * 100 \<noteq> 0 then y * 100 else 50) else 50
           | None \<Rightarrow> 50)
      | None \<Rightarrow>
          (case yesPrice outcome of
             Some y \<Rightarrow> if y \<noteq> 0 then (if y * 100 \<noteq> 0 then y * 100 else 50) else 50
           | None \<Rightarrow> 50))"

text \<open>The model estimate of one outcome, before the fallback to the market price.\<close>

definition grok_prob_opt ::
  "OutcomeData list \<Rightarrow> (string \<times> odds_item) list \<Rightarrow> HistoricalAnalysis option \<Rightarrow> OutcomeData \<Rightarrow> number option" where
  "grok_prob_opt outs fodds ha outcome =
     (let overall_prob = (case ha of None \<Rightarrow> None | Some h \<Rightarrow> probability_estimate h);
          overall_sentiment = (case ha of None \<Rightarrow> None | Some h \<Rightarrow> overall_sentiment h);
          specific = (case matching_odds (py_strip (py_lower (name outcome))) fodds of
                        None \<Rightarrow> None
                      | Some odds \<Rightarrow> (case odds of NonDict \<Rightarrow> None | OddsDict t p \<Rightarrow> p))
      in case specific of
           Some g \<Rightarrow> Some g
         | None \<Rightarrow>
            (case overall_prob of
               None \<Rightarrow> None
             | Some p \<Rightarrow>
                 if length outs = 1 then Some p
                 else if length outs = 2 then
                   (let idx = (if outcome \<in> set outs then index_of outs outcome else 0)
                    in if idx = 0 then Some p else Some (100 - p))
                 else
                   (let adjustment =
                      (if overall_sentiment = Some BULLISH then
                         (let idx = (if outcome \<in> set outs then index_of outs outcome else length outs)
                          in max 0 (10 - int idx * 3))
                       else if overall_sentiment = Some BEARISH then
                         (let idx = (if outcome \<in> set outs then index_of outs outcome else 0)
                          in max 0 (int idx * 2 - 5))
                       else 0)
                    in Some (min 95 (max 5 (market_prob outcome + of_int adjustment))))))"

text \<open>The model estimate: the market price stands in when neither job gave one.\<close>

definition grok_prob ::
  "OutcomeData list \<Rightarrow> (string \<times> odds_item) list \<Rightarrow> HistoricalAnalysis option \<Rightarrow> OutcomeData \<Rightarrow> number" where
  "grok_prob outs fodds ha outcome =
     (case grok_prob_opt outs fodds ha outcome of
        None \<Rightarrow> market_prob outcome
      | Some g \<Rightarrow> g)"

text \<open>The body of the loop over the outcomes: the estimate appended for one outcome.\<close>

definition estimate_for ::
  "OutcomeData list \<Rightarrow> (string \<times> odds_item) list \<Rightarrow> HistoricalAnalysis option \<Rightarrow> OutcomeData \<Rightarrow> GrokOutcomeEstimate" where
  "estimate_for outs fodds ha outcome =
     (let d = py_round1 (grok_prob outs fodds ha outcome - market_prob outcome);
          rec = (if d > 5 then ''BUY'' else if d < - 5 then ''SELL'' else ''HOLD'')
      in \<lparr>outcome_name = name outcome,
          grok_probability = py_round1 (grok_prob outs fodds ha outcome),
          market_probability = py_round1 (market_prob outcome),
          delta = d,
          recommendation = rec\<rparr>)"

definition generate_outcome_estimates ::
  "OutcomeData list \<Rightarrow> FoundationalData option \<Rightarrow> HistoricalAnalysis option \<Rightarrow> GrokOutcomeEstimate list" where
  "generate_outcome_estimates outs fd ha =
     py_sort_reverse (\<lambda>x. \<bar>delta x\<bar>) (map (estimate_for outs (foundational_odds fd) ha) outs)"

section \<open>The request fingerprint: generate\_cache\_key\<close>

text \<open>
  \<open>json.dumps\<close> on a string, with the default \<open>ensure_ascii\<close>: the quote and the backslash
  are escaped, the control characters with a short form take it, and every other code
  point outside the printable ASCII range becomes \<open>\u00XX\<close>.
\<close>

definition hex_digit :: "nat \<Rightarrow> char" where
  "hex_digit d = (if d < 10 then char_of (48 + d) else char_of (87 + d))"

definition json_escape_char :: "char \<Rightarrow> string" where
  "json_escape_char c = (let n = (of_char c :: nat) in
     if n = 34 then [CHR 0x5C, CHR 0x22]
     else if n = 92 then [CHR 0x5C, CHR 0x5C]
     else if n = 10 then [CHR 0x5C, CHR ''n'']
     else if n = 13 then [CHR 0x5C, CHR ''r'']
     else if n = 9 then [CHR 0x5C, CHR ''t'']
     else if n = 8 then [CHR 0x5C, CHR ''b'']
     else if n = 12 then [CHR 0x5C, CHR ''f'']
     else if n < 32 \<or> 127 \<le> n then
       [CHR 0x5C, CHR ''u'', CHR ''0'', CHR ''0'', hex_digit (n div 16), hex_digit (n mod 16)]
     else [c])"

definition json_string :: "string \<Rightarrow> string" where
  "json_string s = CHR 0x22 # concat (map json_escape_char s) @ [CHR 0x22]"

text \<open>\<open>sep.join(xs)\<close>.\<close>

fun join :: "string \<Rightarrow> string list \<Rightarrow> string" where
  "join sep [] = []"
| "join sep [x] = x"
| "join sep (x # y # ys) = x @ sep @ join sep (y # ys)"

definition json_list :: "string list \<Rightarrow> string" where
  "json_list xs = ''['' @ join '', '' (map json_string xs) @ '']''"

text \<open>
  \<open>json.dumps(payload, sort_keys=True)\<close> for the payload of \<open>generate_cache_key\<close>, a dict
  with the keys \<open>market_id\<close> (a string) and \<open>outcome_names\<close> (a list of strings).
\<close>

definition json_dumps_payload :: "string \<Rightarrow> string list \<Rightarrow> string" where
  "json_dumps_payload mid names =
     ''{'' @ json_string ''market_id'' @ '': '' @ json_string mid @ '', ''
     @ json_string ''outcome_names'' @ '': '' @ json_list names @ ''}''"

text \<open>\<open>request.market_id or request.market_title\<close>: an absent or empty id gives the title.\<close>

definition market_id_or_title :: "AnalyzeRequest \<Rightarrow> string" where
  "market_id_or_title request =
     (case market_id request of
        None \<Rightarrow> market_title request
      | Some i \<Rightarrow> if i \<noteq> [] then i else market_title request)"

definition sorted_outcome_names :: "AnalyzeRequest \<Rightarrow> string list" where
  "sorted_outcome_names request = sort (map (\<lambda>outcome. py_lower (py_strip (name outcome))) (outcomes request))"

text \<open>The string that is hashed.\<close>

definition cache_key_raw :: "AnalyzeRequest \<Rightarrow> string" where
  "cache_key_raw request = json_dumps_payload (market_id_or_title request) (sorted_outcome_names request)"

text \<open>
  \<open>hashlib.sha256(raw.encode()).hexdigest()\<close> is a library function: the key is defined for
  any function \<open>sha256_hexdigest\<close> from the string hashed to the hexadecimal digest.
\<close>

definition generate_cache_key :: "(string \<Rightarrow> string) \<Rightarrow> AnalyzeRequest \<Rightarrow> string" where
  "generate_cache_key sha256_hexdigest request = take 16 (sha256_hexdigest (cache_key_raw request))"



section \<open>Events, the event queue and the completion marker\<close>

text \<open>
  The texts of status and log messages. The fixed texts of the server are constructors (their
  wording, with its pictographs, is presentation); \<open>Text\<close> is a text made by a collaborator.
\<close>

datatype message =
    Text string
  | Starting_historical_research
  | Identifying_prominent_figures
  | Identified_experts nat
  | No_experts_found
  | Fetching_tweets nat
  | Fetched_tweets nat

text \<open>What extracting the JSON object from the text of a content event gives.\<close>

datatype content_parse =
    Parse_error string
  | No_json_object
  | Parsed "odds_item list option"

text \<open>
  The event dicts, by their \<open>type\<close> key. A content event stands for its text through what
  the extraction gives. The two shapes of \<open>complete\<close> are the two dicts the jobs build.
\<close>

datatype event =
    Log message
  | Tool_call string string
  | Thinking nat
  | Citations "string list"
  | Usage
  | Content content_parse
  | Status message
  | Complete_historical SentimentEnum number ConfidenceEnum
  | Complete_x_sentiment string int int nat
  | Error string

datatype job_result =
    Foundational_result FoundationalData
  | Historical_result HistoricalAnalysis
  | Prominent_result prominent_figures_result

text \<open>An item of the event queue: a pair of source and event, or the sentinel.\<close>

datatype queue_item =
    Event string event
  | TaskComplete (task_name: string) (result: "job_result option") (error: "string option")

fun is_TaskComplete :: "queue_item \<Rightarrow> bool" where
  "is_TaskComplete (TaskComplete n r e) = True"
| "is_TaskComplete (Event s ev) = False"

section \<open>The analysis jobs\<close>

text \<open>
  A job is modelled by what it leaves behind: the value of its own key of the shared
  \<open>results\<close> dict (no job writes another job's key, and each key starts as \<open>None\<close>) and the
  items it puts on the queue, in order. What its collaborators do is an argument: a call
  returns a value (\<open>Inr\<close>) or raises (\<open>Inl\<close>, with the text of the exception). The \<open>try\<close>
  block of a job is a function of its own, giving the key and the items put when the block
  is left, and the way it is left.
\<close>

datatype try_exit = Raised string | Returned_early | Fell_through

subsection \<open>run\_historical\<close>

definition historical_try ::
  "string + HistoricalAnalysisResponse option
     \<Rightarrow> (HistoricalAnalysis option \<times> queue_item list) \<times> try_exit" where
  "historical_try research =
     (let q1 = [Event ''historical'' (Status Starting_historical_research)] in
      case research of
        Inl e \<Rightarrow> ((None, q1), Raised e)
      | Inr None \<Rightarrow> ((None, q1), Raised ''NoneType object has no attribute model_dump'')
      | Inr (Some r) \<Rightarrow>
          (let result_data = model_dump r in
           ((Some result_data,
             q1 @ [Event ''historical''
                     (Complete_historical (r_overall_sentiment r) (r_probability_estimate r)
                        (r_overall_confidence r))]),
            Fell_through)))"

definition run_historical ::
  "string + HistoricalAnalysisResponse option \<Rightarrow> HistoricalAnalysis option \<times> queue_item list" where
  "run_historical research =
     (let ((slot, q), ex) = historical_try research;
          q' = (case ex of Raised e \<Rightarrow> q @ [Event ''historical'' (Error e)] | _ \<Rightarrow> q)
      in (slot, q' @ [TaskComplete ''historical'' (map_option Historical_result slot) None]))"

subsection \<open>run\_foundational\_in\_thread\<close>

text \<open>
  The loop of \<open>sync_foundational\<close> over the events of the agentic search: every event is
  kept; a content event sets the result when a JSON object is found in it, and adds an error
  event when decoding it fails.
\<close>

fun sync_events ::
  "string \<Rightarrow> datetime \<Rightarrow> event list \<Rightarrow> FoundationalData option
     \<Rightarrow> (string \<times> event) list \<times> FoundationalData option" where
  "sync_events title now [] result_data = ([], result_data)"
| "sync_events title now (Content (Parsed odds) # rest) result_data =
     (let (evs, r) = sync_events title now rest
                       (Some \<lparr>current_odds = odds, event_query = title, generated_at = now\<rparr>)
      in ((''foundational'', Content (Parsed odds)) # evs, r))"
| "sync_events title now (Content (Parse_error e) # rest) result_data =
     (let (evs, r) = sync_events title now rest result_data
      in ((''foundational'', Content (Parse_error e)) # (''foundational'', Error e) # evs, r))"
| "sync_events title now (ev # rest) result_data =
     (let (evs, r) = sync_events title now rest result_data
      in ((''foundational'', ev) # evs, r))"

text \<open>
  Inside \<open>sync_foundational\<close> the service constructor raises, or the search yields its
  events (the search catches its own exceptions and yields an error event instead).
\<close>

datatype sync_run =
    Service_error string
  | Search "event list"

definition sync_foundational ::
  "string \<Rightarrow> datetime \<Rightarrow> sync_run \<Rightarrow> (string \<times> event) list \<times> FoundationalData option" where
  "sync_foundational title now run =
     (case run of
        Service_error e \<Rightarrow> ([(''foundational'', Error e)], None)
      | Search evs \<Rightarrow> sync_events title now evs None)"

text \<open>
  What awaiting the executor comes to: the wait of 200 seconds times out, or the executor
  raises, or \<open>sync_foundational\<close> returns.
\<close>

datatype foundational_run =
    Global_timeout string
  | Executor_error string
  | Sync_returned sync_run

definition run_foundational_in_thread ::
  "string \<Rightarrow> datetime \<Rightarrow> foundational_run \<Rightarrow> FoundationalData option \<times> queue_item list" where
  "run_foundational_in_thread title now run =
     (let (events, result_data) =
        (case run of
           Global_timeout e \<Rightarrow> ([(''foundational'', Error e)], None)
         | Executor_error e \<Rightarrow> ([(''foundational'', Error e)], None)
         | Sync_returned r \<Rightarrow> sync_foundational title now r)
      in (result_data,
          map (\<lambda>(source, ev). Event source ev) events
          @ [TaskComplete ''foundational'' (map_option Foundational_result result_data) None]))"

text \<open>The exception that one of the \<open>except\<close> clauses of the job catches, if any.\<close>

definition foundational_raised :: "foundational_run \<Rightarrow> string option" where
  "foundational_raised run =
     (case run of
        Global_timeout e \<Rightarrow> Some e
      | Executor_error e \<Rightarrow> Some e
      | Sync_returned (Service_error e) \<Rightarrow> Some e
      | Sync_returned (Search evs) \<Rightarrow> None)"

subsection \<open>run\_prominent\_figures\<close>

text \<open>
  The collaborators of the job: generating the figures, fetching the tweets (one list of
  tweets per figure), writing the temporary file, and analysing the tweets.
\<close>

record prominent_figures_run =
  generate_call :: "string + figures_json"
  fetch_call :: "string + string list list"
  temp_file_write :: "string option"
  analyze_call :: "string + analysis_json"

definition x_marker :: "prominent_figures_result option \<Rightarrow> queue_item" where
  "x_marker slot = TaskComplete ''x_sentiment'' (map_option Prominent_result slot) None"

definition prominent_figures_try ::
  "prominent_figures_run \<Rightarrow> (prominent_figures_result option \<times> queue_item list) \<times> try_exit" where
  "prominent_figures_try run =
     (let q1 = [Event ''x_sentiment'' (Status Identifying_prominent_figures)] in
      case generate_call run of
        Inl e \<Rightarrow> ((None, q1), Raised e)
      | Inr figures_data \<Rightarrow>
      (case prominent_figures_j figures_data of
        Null \<Rightarrow> ((None, q1), Raised ''object of type NoneType has no len()'')
      | figs \<Rightarrow>
      (let figures = (case figs of Val l \<Rightarrow> l | _ \<Rightarrow> []);
           num_figures = length figures;
           q2 = q1 @ [Event ''x_sentiment'' (Status (Identified_experts num_figures))]
       in
       if num_figures = 0 then
         (let slot = Some \<lparr>analysis = None, figures_meta = figures_data\<rparr> in
          ((slot, q2 @ [Event ''x_sentiment'' (Status No_experts_found), x_marker slot]),
           Returned_early))
       else
       (let q3 = q2 @ [Event ''x_sentiment'' (Status (Fetching_tweets num_figures))] in
        case fetch_call run of
          Inl e \<Rightarrow> ((None, q3), Raised e)
        | Inr tweets_by_figure \<Rightarrow>
        (let total_tweets = sum_list (map length tweets_by_figure);
             q4 = q3 @ [Event ''x_sentiment'' (Status (Fetched_tweets total_tweets))]
         in
         if total_tweets = 0 then
           (let slot = Some \<lparr>analysis = Some (Analysis (Val (Summary None (Some 0) (Some 0)))),
                             figures_meta = figures_data\<rparr> in
            ((slot, q4 @ [Event ''x_sentiment'' (Complete_x_sentiment ''unknown'' 0 0 num_figures),
                          x_marker slot]),
             Returned_early))
         else
         (case temp_file_write run of
            Some e \<Rightarrow> ((None, q4), Raised e)
          | None \<Rightarrow>
          (case prediction_event figures_data of
            Null \<Rightarrow> ((None, q4), Raised ''NoneType object has no attribute get'')
          | _ \<Rightarrow>
          (case analyze_call run of
            Inl e \<Rightarrow> ((None, q4), Raised e)
          | Inr response \<Rightarrow>
          (let slot = Some \<lparr>analysis = Some response, figures_meta = figures_data\<rparr> in
           case summary response of
             Null \<Rightarrow> ((slot, q4), Raised ''NoneType object has no attribute get'')
           | s \<Rightarrow>
           (let smry = (case s of Val d \<Rightarrow> d | _ \<Rightarrow> Summary None None None) in
            ((slot,
              q4 @ [Event ''x_sentiment''
                      (Complete_x_sentiment
                         (case sentiment_trend smry of None \<Rightarrow> ''unknown'' | Some t \<Rightarrow> t)
                         (case alpha_count smry of None \<Rightarrow> 0 | Some a \<Rightarrow> a)
                         (case total_tweets_analyzed smry of None \<Rightarrow> 0 | Some n \<Rightarrow> n)
                         num_figures)]),
             Fell_through)))))))))))"

text \<open>
  The whole job: an exception is caught and put as an error event; unless the block
  returned (having put its marker), the marker is put after it, with what the key holds.
\<close>

definition run_prominent_figures ::
  "prominent_figures_run \<Rightarrow> prominent_figures_result option \<times> queue_item list" where
  "run_prominent_figures run =
     (let ((slot, q), ex) = prominent_figures_try run in
      case ex of
        Raised e \<Rightarrow> (slot, q @ [Event ''x_sentiment'' (Error e), x_marker slot])
      | Returned_early \<Rightarrow> (slot, q)
      | Fell_through \<Rightarrow> (slot, q @ [x_marker slot]))"

section \<open>The orchestrator: run\_parallel\_analysis\_stream\<close>

text \<open>
  The server-sent events of the stream, by event name. Elapsed wall-clock times in the
  payloads are left out.
\<close>

datatype sse =
    Sse_status_init string
  | Sse_status_parallel_start
  | Sse_task_complete string
  | Sse_log string message
  | Sse_tool_call string string string
  | Sse_thinking string nat
  | Sse_citations string "string list"
  | Sse_status string message
  | Sse_historical_complete SentimentEnum number ConfidenceEnum
  | Sse_x_sentiment_complete string int int
  | Sse_error string string
  | Sse_cancelled
  | Sse_outcome_estimates "GrokOutcomeEstimate list"
  | Sse_result CachedResult
  | Sse_done

text \<open>
  The formatting of one queued event. A \<open>complete\<close> event from the historical source is
  indexed by the keys of the historical shape: on the other shape that is a KeyError
  (\<open>None\<close> here). Events of other types, and complete events of other sources, yield nothing.
\<close>

fun format_sse :: "string \<Rightarrow> event \<Rightarrow> sse list option" where
  "format_sse source (Log m) = Some [Sse_log source m]"
| "format_sse source (Tool_call tool args) = Some [Sse_tool_call source tool (take 200 args)]"
| "format_sse source (Thinking tokens) = Some [Sse_thinking source tokens]"
| "format_sse source (Citations cites) =
     Some (if cites \<noteq> [] then [Sse_citations source (take 10 cites)] else [])"
| "format_sse source (Status m) = Some [Sse_status source m]"
| "format_sse source (Complete_historical s p c) =
     Some (if source = ''historical'' then [Sse_historical_complete s p c]
           else if source = ''x_sentiment'' then [Sse_x_sentiment_complete (sentiment_value s) 0 0]
           else [])"
| "format_sse source (Complete_x_sentiment s a n f) =
     (if source = ''historical'' then None
      else Some (if source = ''x_sentiment'' then [Sse_x_sentiment_complete s a n] else []))"
| "format_sse source (Error e) = Some [Sse_error source e]"
| "format_sse source ev = Some []"

text \<open>
  What one turn of the draining loop meets: the client has gone (with the tasks that are
  done at that moment), the stream itself is cancelled at an await (likewise), the wait on
  the queue times out, or the queue gives its next item.
\<close>

datatype poll =
    Disconnected "string list"
  | Stream_cancelled "string list"
  | Timeout
  | Got queue_item

text \<open>How the loop is left; \<open>Still_polling\<close> when the polls given run out first.\<close>

datatype loop_exit =
    All_complete
  | Client_disconnected "string list"
  | Cancelled_error "string list"
  | Key_error
  | Still_polling

definition running_tasks :: "string list" where
  "running_tasks = [''foundational'', ''historical'', ''x_sentiment'']"

text \<open>The tasks that get \<open>task.cancel()\<close>: those not done.\<close>

definition cancel_tasks :: "string list \<Rightarrow> string list" where
  "cancel_tasks done = filter (\<lambda>t. t \<notin> set done) running_tasks"

text \<open>
  The \<open>while\<close> loop. \<open>tasks_complete\<close> is the dict of the source, in insertion order. The
  result is the events yielded by the loop and the way the loop is left.
\<close>

fun drain :: "(string \<times> bool) list \<Rightarrow> poll list \<Rightarrow> sse list \<times> loop_exit" where
  "drain tasks_complete polls =
     (if list_all snd tasks_complete then ([], All_complete)
      else case polls of
        [] \<Rightarrow> ([], Still_polling)
      | Disconnected done # rest \<Rightarrow> ([Sse_cancelled], Client_disconnected (cancel_tasks done))
      | Stream_cancelled done # rest \<Rightarrow> ([], Cancelled_error (cancel_tasks done))
      | Timeout # rest \<Rightarrow> drain tasks_complete rest
      | Got (TaskComplete n r e) # rest \<Rightarrow>
          (let (out, ex) = drain (AList.update n True tasks_complete) rest
           in (Sse_task_complete n # out, ex))
      | Got (Event source ev) # rest \<Rightarrow>
          (case format_sse source ev of
             None \<Rightarrow> ([], Key_error)
           | Some evs \<Rightarrow> (let (out, ex) = drain tasks_complete rest in (evs @ out, ex))))"

text \<open>The dict \<open>tasks_complete\<close> before the loop.\<close>

definition tasks_complete_init :: "(string \<times> bool) list" where
  "tasks_complete_init = [(''foundational'', False), (''historical'', False), (''x_sentiment'', False)]"

text \<open>The shared \<open>results\<close> dict, as the jobs leave it.\<close>

record results =
  foundational :: "FoundationalData option"
  historical :: "HistoricalAnalysis option"
  prominent_figures :: "prominent_figures_result option"

text \<open>
  The steps after the loop: the estimates, the combined result, the write to the cache,
  and the last two events. \<open>now\<close> is the clock at that moment.
\<close>

definition complete_analysis ::
  "AnalyzeRequest \<Rightarrow> string \<Rightarrow> results \<Rightarrow> datetime \<Rightarrow> cache \<Rightarrow> sse list \<times> cache" where
  "complete_analysis request key res now c =
     (let estimates = generate_outcome_estimates (outcomes request) (foundational res) (historical res);
          cached_result =
            \<lparr>cache_key = key,
             created_at = now,
             expires_at = now + timedelta_minutes CACHE_TTL_MINUTES,
             market_title_c = market_title request,
             foundational_data = foundational res,
             historical_analysis = historical res,
             prominent_figures_analysis = prominent_figures res,
             outcome_estimates = Some estimates\<rparr>
      in ((if estimates \<noteq> [] then [Sse_outcome_estimates estimates] else [])
          @ [Sse_result cached_result, Sse_done],
          set_cached c key cached_result))"

text \<open>
  The stream of one request: the events yielded, the cache afterwards, and the way the loop
  was left. The jobs run on what their collaborators do (\<open>frun\<close>, \<open>hrun\<close>, \<open>prun\<close>, and the
  clock \<open>tf\<close> of the foundational job); the polls are what the loop meets.
\<close>

definition run_parallel_analysis_stream ::
  "AnalyzeRequest \<Rightarrow> string \<Rightarrow> cache \<Rightarrow> datetime \<Rightarrow> foundational_run \<Rightarrow> datetime
     \<Rightarrow> (string + HistoricalAnalysisResponse option) \<Rightarrow> prominent_figures_run \<Rightarrow> poll list
     \<Rightarrow> sse list \<times> cache \<times> loop_exit" where
  "run_parallel_analysis_stream request key c now frun tf hrun prun polls =
     (let res = \<lparr>foundational = fst (run_foundational_in_thread (market_title request) tf frun),
                 historical = fst (run_historical hrun),
                 prominent_figures = fst (run_prominent_figures prun)\<rparr>;
          (out, ex) = drain tasks_complete_init polls;
          head = [Sse_status_init key, Sse_status_parallel_start]
      in case ex of
           All_complete \<Rightarrow>
             (let (fin, c') = complete_analysis request key res now c in (head @ out @ fin, c', ex))
         | _ \<Rightarrow> (head @ out, c, ex))"

text \<open>The items the loop has taken from the queue, in order.\<close>

fun arrivals :: "poll list \<Rightarrow> queue_item list" where
  "arrivals [] = []"
| "arrivals (Got i # rest) = i # arrivals rest"
| "arrivals (p # rest) = arrivals rest"

text \<open>The job an item comes from: the source of an event, the task of a marker.\<close>

fun item_job :: "queue_item \<Rightarrow> string" where
  "item_job (Event source ev) = source"
| "item_job (TaskComplete n r e) = n"

text \<open>
  The items of a job end with its marker: the list is not empty, its last item is a marker,
  no item before it is one, and every item is attributed to the job.
\<close>

definition marker_last :: "string \<Rightarrow> queue_item list \<Rightarrow> bool" where
  "marker_last n items =
     (items \<noteq> [] \<and> is_TaskComplete (last items)
      \<and> list_all (\<lambda>i. \<not> is_TaskComplete i) (butlast items)
      \<and> list_all (\<lambda>i. item_job i = n) items)"

text \<open>The client stays connected and the stream is not cancelled, at every poll.\<close>

fun undisturbed :: "poll list \<Rightarrow> bool" where
  "undisturbed [] = True"
| "undisturbed (Disconnected d # rest) = False"
| "undisturbed (Stream_cancelled d # rest) = False"
| "undisturbed (p # rest) = undisturbed rest"

section \<open>Properties of the synthesizer\<close>

lemma py_round1_int: "py_round1 (of_int n) = of_int n"
proof -
  have "(of_int n :: rat) * 10 = of_int (n * 10)" by simp
  then have f: "\<lfloor>(of_int n :: rat) * 10\<rfloor> = n * 10" by (metis floor_of_int)
  show ?thesis unfolding py_round1_def Let_def f by simp
qed

lemma py_round1_0: "py_round1 0 = 0"
  using py_round1_int [of 0] by simp

lemma py_round1_50: "py_round1 50 = 50"
  using py_round1_int [of 50] by simp


lemma py_round1_numeral: "py_round1 (numeral k) = numeral k"
  using py_round1_int [of "numeral k"] by simp

lemma mset_generate:
  "mset (generate_outcome_estimates outs fd ha) = mset (map (estimate_for outs (foundational_odds fd) ha) outs)"
  by (simp add: generate_outcome_estimates_def py_sort_reverse_def)

lemma set_generate:
  "set (generate_outcome_estimates outs fd ha) = estimate_for outs (foundational_odds fd) ha ` set outs"
  by (simp add: generate_outcome_estimates_def py_sort_reverse_def)

lemma market_prob_50:
  assumes "probability outcome = None \<or> probability outcome = Some 0"
      and "yesPrice outcome = None \<or> yesPrice outcome = Some 0"
  shows "market_prob outcome = 50"
  using assms by (auto simp: market_prob_def)

lemma grok_prob_no_data: "grok_prob outs (foundational_odds None) None outcome = market_prob outcome"
  by (simp add: grok_prob_def grok_prob_opt_def foundational_odds_def)

text \<open>
  C10. An outcome whose \<open>probability\<close> is \<open>None\<close> or 0 and whose \<open>yesPrice\<close> is \<open>None\<close> or 0
  has the market probability 50: that is the value in its estimate, whatever the jobs gave,
  and with no job data at all its estimate is 50 against 50, delta 0, HOLD.
\<close>

theorem no_quote_gives_market_probability_50:
  assumes "outcome \<in> set outs"
      and "probability outcome = None \<or> probability outcome = Some 0"
      and "yesPrice outcome = None \<or> yesPrice outcome = Some 0"
  shows "market_prob outcome = 50 \<and>
         market_probability (estimate_for outs (foundational_odds fd) ha outcome) = 50 \<and>
         estimate_for outs (foundational_odds fd) ha outcome \<in> set (generate_outcome_estimates outs fd ha) \<and>
         estimate_for outs (foundational_odds None) None outcome =
           \<lparr>outcome_name = name outcome, grok_probability = 50, market_probability = 50,
            delta = 0, recommendation = ''HOLD''\<rparr>"
proof -
  have m: "market_prob outcome = 50" using assms(2,3) by (rule market_prob_50)
  have a: "market_probability (estimate_for outs (foundational_odds fd) ha outcome) = 50"
    by (simp add: estimate_for_def Let_def m py_round1_numeral)
  have b: "estimate_for outs (foundational_odds fd) ha outcome \<in> set (generate_outcome_estimates outs fd ha)"
    unfolding set_generate using assms(1) by (rule imageI)
  have c: "estimate_for outs (foundational_odds None) None outcome =
           \<lparr>outcome_name = name outcome, grok_probability = 50, market_probability = 50,
            delta = 0, recommendation = ''HOLD''\<rparr>"
    by (simp add: estimate_for_def Let_def grok_prob_no_data m py_round1_numeral py_round1_0)
  show ?thesis using m a b c by simp
qed

text \<open>The theorem at an outcome quoted at probability 0, with no job data.\<close>

theorem no_quote_gives_market_probability_50_witness:
  "generate_outcome_estimates
     [\<lparr>name = ''Yes'', probability = Some 0, yesPrice = None, noPrice = None, volume_usd = None\<rparr>]
     None None
   = [\<lparr>outcome_name = ''Yes'', grok_probability = 50, market_probability = 50,
       delta = 0, recommendation = ''HOLD''\<rparr>]"
proof -
  let ?o = "\<lparr>name = ''Yes'', probability = Some (0::rat), yesPrice = None, noPrice = None, volume_usd = None\<rparr>"
  have "estimate_for [?o] (foundational_odds None) None ?o =
        \<lparr>outcome_name = name ?o, grok_probability = 50, market_probability = 50,
            delta = 0, recommendation = ''HOLD''\<rparr>"
    using no_quote_gives_market_probability_50 [of ?o "[?o]" None None] by simp
  then show ?thesis
    by (simp add: generate_outcome_estimates_def py_sort_reverse_def)
qed

text \<open>
  C7. For the two outcomes Yes and No, when no odds entry of the foundational result
  matches either name and the historical result's probability estimate is 70, the
  estimates returned are one for Yes with model estimate 70 and one for No with 30.
\<close>

theorem binary_market_estimates:
  assumes "name o1 = ''Yes''" and "name o2 = ''No''"
      and "matching_odds (py_strip (py_lower (name o1))) (foundational_odds fd) = None"
      and "matching_odds (py_strip (py_lower (name o2))) (foundational_odds fd) = None"
      and "probability_estimate h = Some 70"
  shows "\<exists>e1 e2. mset (generate_outcome_estimates [o1, o2] fd (Some h)) = {#e1, e2#} \<and>
           outcome_name e1 = ''Yes'' \<and> grok_probability e1 = 70 \<and>
           outcome_name e2 = ''No'' \<and> grok_probability e2 = 30"
proof -
  have ne: "o1 \<noteq> o2" using assms(1,2) by auto
  have g1: "grok_prob [o1, o2] (foundational_odds fd) (Some h) o1 = 70"
    using assms(3,5) by (simp add: grok_prob_def grok_prob_opt_def)
  have g2: "grok_prob [o1, o2] (foundational_odds fd) (Some h) o2 = 30"
    using assms(4,5) ne by (simp add: grok_prob_def grok_prob_opt_def)
  let ?e1 = "estimate_for [o1, o2] (foundational_odds fd) (Some h) o1"
  let ?e2 = "estimate_for [o1, o2] (foundational_odds fd) (Some h) o2"
  have m: "mset (generate_outcome_estimates [o1, o2] fd (Some h)) = {#?e1, ?e2#}"
    by (simp add: mset_generate)
  have p1: "outcome_name ?e1 = ''Yes'' \<and> grok_probability ?e1 = 70"
    using assms(1) by (simp add: estimate_for_def Let_def g1 py_round1_numeral)
  have p2: "outcome_name ?e2 = ''No'' \<and> grok_probability ?e2 = 30"
    using assms(2) by (simp add: estimate_for_def Let_def g2 py_round1_numeral)
  show ?thesis using m p1 p2 by blast
qed

text \<open>The theorem at a market quoted 60 to 40, without a foundational result.\<close>

theorem binary_market_estimates_witness:
  "\<exists>e1 e2. mset (generate_outcome_estimates
       [\<lparr>name = ''Yes'', probability = Some 60, yesPrice = None, noPrice = None, volume_usd = None\<rparr>,
        \<lparr>name = ''No'', probability = Some 40, yesPrice = None, noPrice = None, volume_usd = None\<rparr>]
       None (Some \<lparr>probability_estimate = Some 70, overall_sentiment = Some BULLISH\<rparr>)) = {#e1, e2#} \<and>
     outcome_name e1 = ''Yes'' \<and> grok_probability e1 = 70 \<and>
     outcome_name e2 = ''No'' \<and> grok_probability e2 = 30"
  using binary_market_estimates
    [of "\<lparr>name = ''Yes'', probability = Some 60, yesPrice = None, noPrice = None, volume_usd = None\<rparr>"
        "\<lparr>name = ''No'', probability = Some 40, yesPrice = None, noPrice = None, volume_usd = None\<rparr>"
        None "\<lparr>probability_estimate = Some 70, overall_sentiment = Some BULLISH\<rparr>"]
  by (simp add: foundational_odds_def)






section \<open>Properties of the cache\<close>

lemma complete_analysis_cache:
  "snd (complete_analysis request key res T c) key =
     Some \<lparr>cache_key = key, created_at = T,
           expires_at = T + timedelta_minutes CACHE_TTL_MINUTES,
           market_title_c = market_title request,
           foundational_data = foundational res,
           historical_analysis = historical res,
           prominent_figures_analysis = prominent_figures res,
           outcome_estimates =
             Some (generate_outcome_estimates (outcomes request) (foundational res) (historical res))\<rparr>"
  by (simp add: complete_analysis_def Let_def set_cached_def)

text \<open>
  C5, amended. The combined result stored at time \<open>T\<close> by the completion step, with expiry
  \<open>T\<close> plus the time to live, is sent as the \<open>result\<close> event; the lookup returns it, leaving
  the cache as it is, at every time up to and including the expiry time, and returns
  nothing at every later time, the entry being removed by that lookup.
\<close>

theorem cache_expiry_boundary:
  "(let c' = snd (complete_analysis request key res T c);
        entry = \<lparr>cache_key = key, created_at = T,
           expires_at = T + timedelta_minutes CACHE_TTL_MINUTES,
           market_title_c = market_title request,
           foundational_data = foundational res,
           historical_analysis = historical res,
           prominent_figures_analysis = prominent_figures res,
           outcome_estimates =
             Some (generate_outcome_estimates (outcomes request) (foundational res) (historical res))\<rparr>
    in Sse_result entry \<in> set (fst (complete_analysis request key res T c)) \<and>
       (T' \<le> T + timedelta_minutes CACHE_TTL_MINUTES \<longrightarrow> get_cached c' T' key = (Some entry, c')) \<and>
       (T + timedelta_minutes CACHE_TTL_MINUTES < T' \<longrightarrow>
          get_cached c' T' key = (None, c'(key := None)) \<and> (c'(key := None)) key = None))"
  unfolding Let_def
  by (simp add: get_cached_def complete_analysis_cache) (simp add: complete_analysis_def Let_def)

text \<open>
  C5, as stated, fails at the boundary: a lookup exactly at the expiry time, thirty minutes
  after the entry was stored, still returns the entry.
\<close>

theorem cache_entry_present_at_expiry_time:
  "fst (get_cached
      (snd (complete_analysis
         \<lparr>market_id = None, market_title = ''m'', market_url = None, total_volume_usd = None,
          outcomes = [], force_refresh = False\<rparr>
         ''k'' \<lparr>foundational = None, historical = None, prominent_figures = None\<rparr> 0 Map.empty))
      (0 + timedelta_minutes CACHE_TTL_MINUTES) ''k'') \<noteq> None"
  by (simp add: get_cached_def complete_analysis_cache)

text \<open>The theorem one microsecond before and one after the expiry time.\<close>

theorem cache_expiry_boundary_witness:
  "fst (get_cached
      (snd (complete_analysis
         \<lparr>market_id = None, market_title = ''m'', market_url = None, total_volume_usd = None,
          outcomes = [], force_refresh = False\<rparr>
         ''k'' \<lparr>foundational = None, historical = None, prominent_figures = None\<rparr> 0 Map.empty))
      1799999999 ''k'') \<noteq> None \<and>
   get_cached
      (snd (complete_analysis
         \<lparr>market_id = None, market_title = ''m'', market_url = None, total_volume_usd = None,
          outcomes = [], force_refresh = False\<rparr>
         ''k'' \<lparr>foundational = None, historical = None, prominent_figures = None\<rparr> 0 Map.empty))
      1800000001 ''k'' = (None, Map.empty)"
  using cache_expiry_boundary
     [of "\<lparr>market_id = None, market_title = ''m'', market_url = None, total_volume_usd = None,
          outcomes = [], force_refresh = False\<rparr>"
         "''k''" "\<lparr>foundational = None, historical = None, prominent_figures = None\<rparr>" 0 Map.empty 1799999999]
    cache_expiry_boundary
     [of "\<lparr>market_id = None, market_title = ''m'', market_url = None, total_volume_usd = None,
          outcomes = [], force_refresh = False\<rparr>"
         "''k''" "\<lparr>foundational = None, historical = None, prominent_figures = None\<rparr>" 0 Map.empty 1800000001]
  unfolding Let_def
  by (simp add: timedelta_minutes_def CACHE_TTL_MINUTES_def complete_analysis_def Let_def set_cached_def)

section \<open>Properties of the fingerprint\<close>












lemma sorted_names_mset:
  assumes "mset (map name (outcomes r1)) = mset (map name (outcomes r2))"
  shows "sorted_outcome_names r1 = sorted_outcome_names r2"
proof -
  let ?f = "\<lambda>n. py_lower (py_strip n)"
  have "mset (map ?f (map name (outcomes r1))) = mset (map ?f (map name (outcomes r2)))"
    using assms by (metis mset_map)
  then have "mset (map (\<lambda>outcome. py_lower (py_strip (name outcome))) (outcomes r1))
           = mset (map (\<lambda>outcome. py_lower (py_strip (name outcome))) (outcomes r2))"
    by (simp add: comp_def)
  then show ?thesis
    unfolding sorted_outcome_names_def
    by (metis properties_for_sort sorted_sort mset_sort)
qed

text \<open>
  C4. Two requests with the same market id and title whose outcome names are the same up
  to order, whatever their prices, probabilities and volumes, have the same fingerprint.
\<close>

theorem fingerprint_determinism:
  assumes "market_id r1 = market_id r2"
      and "market_title r1 = market_title r2"
      and "mset (map name (outcomes r1)) = mset (map name (outcomes r2))"
  shows "generate_cache_key sha256_hexdigest r1 = generate_cache_key sha256_hexdigest r2"
proof -
  have "market_id_or_title r1 = market_id_or_title r2"
    using assms(1,2) by (simp add: market_id_or_title_def split: option.splits)
  with sorted_names_mset [OF assms(3)] show ?thesis
    by (simp add: generate_cache_key_def cache_key_raw_def)
qed

text \<open>The theorem at two requests with the outcomes swapped and other prices and volumes.\<close>

theorem fingerprint_determinism_witness:
  "\<forall>sha256_hexdigest.
     generate_cache_key sha256_hexdigest
       \<lparr>market_id = Some ''m1'', market_title = ''Title'', market_url = None,
        total_volume_usd = Some 1000,
        outcomes = [\<lparr>name = ''Yes'', probability = Some 60, yesPrice = Some (6 / 10), noPrice = Some (4 / 10), volume_usd = Some 10\<rparr>,
                    \<lparr>name = ''No'', probability = Some 40, yesPrice = Some (4 / 10), noPrice = Some (6 / 10), volume_usd = Some 20\<rparr>],
        force_refresh = False\<rparr>
   = generate_cache_key sha256_hexdigest
       \<lparr>market_id = Some ''m1'', market_title = ''Title'', market_url = None,
        total_volume_usd = Some 2500,
        outcomes = [\<lparr>name = ''No'', probability = Some 45, yesPrice = Some (45 / 100), noPrice = Some (55 / 100), volume_usd = None\<rparr>,
                    \<lparr>name = ''Yes'', probability = Some 55, yesPrice = Some (55 / 100), noPrice = Some (45 / 100), volume_usd = Some 70\<rparr>],
        force_refresh = False\<rparr>"
proof
  fix h :: "string \<Rightarrow> string"
  show "generate_cache_key h
       \<lparr>market_id = Some ''m1'', market_title = ''Title'', market_url = None,
        total_volume_usd = Some 1000,
        outcomes = [\<lparr>name = ''Yes'', probability = Some 60, yesPrice = Some (6 / 10), noPrice = Some (4 / 10), volume_usd = Some 10\<rparr>,
                    \<lparr>name = ''No'', probability = Some 40, yesPrice = Some (4 / 10), noPrice = Some (6 / 10), volume_usd = Some 20\<rparr>],
        force_refresh = False\<rparr>
   = generate_cache_key h
       \<lparr>market_id = Some ''m1'', market_title = ''Title'', market_url = None,
        total_volume_usd = Some 2500,
        outcomes = [\<lparr>name = ''No'', probability = Some 45, yesPrice = Some (45 / 100), noPrice = Some (55 / 100), volume_usd = None\<rparr>,
                    \<lparr>name = ''Yes'', probability = Some 55, yesPrice = Some (55 / 100), noPrice = Some (45 / 100), volume_usd = Some 70\<rparr>],
        force_refresh = False\<rparr>"
    by (rule fingerprint_determinism) simp_all
qed





section \<open>Properties of the jobs\<close>

lemma marker_lastI:
  "list_all (\<lambda>i. \<not> is_TaskComplete i) q \<Longrightarrow> list_all (\<lambda>i. item_job i = n) q
   \<Longrightarrow> marker_last n (q @ [TaskComplete n r e])"
  by (simp add: marker_last_def)

lemma historical_marker_last: "marker_last ''historical'' (snd (run_historical research))"
  by (cases research)
     (auto simp: run_historical_def historical_try_def marker_last_def Let_def split: option.splits)

lemma sync_events_sources:
  "p \<in> set (fst (sync_events title now evs rd)) \<Longrightarrow> fst p = ''foundational''"
  by (induction title now evs rd rule: sync_events.induct) (auto split: prod.splits)

lemma foundational_events_sources:
  assumes "(case run of
           Global_timeout e \<Rightarrow> ([(''foundational'', Error e)], None)
         | Executor_error e \<Rightarrow> ([(''foundational'', Error e)], None)
         | Sync_returned r \<Rightarrow> sync_foundational title now r) = (events, rd)"
      and "p \<in> set events"
  shows "fst p = ''foundational''"
proof (cases run)
  case (Sync_returned r)
  show ?thesis
  proof (cases r)
    case (Service_error e)
    with Sync_returned assms show ?thesis by (auto simp: sync_foundational_def)
  next
    case (Search evs)
    with Sync_returned assms have "p \<in> set (fst (sync_events title now evs None))"
      by (simp add: sync_foundational_def)
    then show ?thesis by (rule sync_events_sources)
  qed
qed (use assms in auto)

lemma foundational_marker_last:
  "marker_last ''foundational'' (snd (run_foundational_in_thread title now run))"
proof -
  obtain events rd where e: "(case run of
           Global_timeout e \<Rightarrow> ([(''foundational'', Error e)], None)
         | Executor_error e \<Rightarrow> ([(''foundational'', Error e)], None)
         | Sync_returned r \<Rightarrow> sync_foundational title now r) = (events, rd)"
    by (metis prod.exhaust)
  have src: "\<forall>p \<in> set events. fst p = ''foundational''"
    using foundational_events_sources [OF e] by blast
  have a: "list_all (\<lambda>i. \<not> is_TaskComplete i) (map (\<lambda>(source, ev). Event source ev) events)"
    by (induction events) auto
  have b: "list_all (\<lambda>i. item_job i = ''foundational'') (map (\<lambda>(source, ev). Event source ev) events)"
    using src by (induction events) auto
  show ?thesis
    unfolding run_foundational_in_thread_def Let_def e
    using marker_lastI [OF a b] by simp
qed

lemma prominent_try_items:
  "prominent_figures_try run = ((slot, q), ex) \<Longrightarrow>
     list_all (\<lambda>i. item_job i = ''x_sentiment'') q \<and>
     (if ex = Returned_early
      then q \<noteq> [] \<and> last q = x_marker slot \<and> list_all (\<lambda>i. \<not> is_TaskComplete i) (butlast q)
      else list_all (\<lambda>i. \<not> is_TaskComplete i) q)"
  unfolding prominent_figures_try_def Let_def x_marker_def
  by (auto split: sum.splits json_opt.splits option.splits if_splits)

lemma prominent_marker_last: "marker_last ''x_sentiment'' (snd (run_prominent_figures run))"
proof -
  obtain slot q ex where t: "prominent_figures_try run = ((slot, q), ex)"
    by (metis prod.exhaust)
  from prominent_try_items [OF t] show ?thesis
    unfolding run_prominent_figures_def t
    by (cases ex) (auto simp: marker_last_def x_marker_def butlast_append)
qed

section \<open>Properties of the draining loop\<close>

declare drain.simps [simp del]

lemma drain_done: "list_all snd tc \<Longrightarrow> drain tc polls = ([], All_complete)"
  by (subst drain.simps) simp

lemma drain_Nil: "\<not> list_all snd tc \<Longrightarrow> drain tc [] = ([], Still_polling)"
  by (subst drain.simps) simp

lemma drain_Disconnected:
  "\<not> list_all snd tc \<Longrightarrow>
   drain tc (Disconnected d # rest) = ([Sse_cancelled], Client_disconnected (cancel_tasks d))"
  by (subst drain.simps) simp

lemma drain_Stream_cancelled:
  "\<not> list_all snd tc \<Longrightarrow>
   drain tc (Stream_cancelled d # rest) = ([], Cancelled_error (cancel_tasks d))"
  by (subst drain.simps) simp

lemma drain_Timeout: "\<not> list_all snd tc \<Longrightarrow> drain tc (Timeout # rest) = drain tc rest"
  by (subst drain.simps) simp

lemma drain_marker:
  "\<not> list_all snd tc \<Longrightarrow>
   drain tc (Got (TaskComplete n r e) # rest) =
     (Sse_task_complete n # fst (drain (AList.update n True tc) rest),
      snd (drain (AList.update n True tc) rest))"
  by (subst drain.simps) (simp add: split_beta)

lemma drain_event:
  "\<not> list_all snd tc \<Longrightarrow>
   drain tc (Got (Event s ev) # rest) =
     (case format_sse s ev of
        None \<Rightarrow> ([], Key_error)
      | Some evs \<Rightarrow> (evs @ fst (drain tc rest), snd (drain tc rest)))"
  by (subst drain.simps) (simp add: split_beta split: option.splits)

lemmas drain_step = drain_Nil drain_Disconnected drain_Stream_cancelled drain_Timeout
  drain_marker drain_event

lemma pending_not_done: "map_of tc n = Some False \<Longrightarrow> \<not> list_all snd tc"
  by (force simp: list_all_iff dest!: map_of_SomeD)

lemma done_or_pending:
  "distinct (map fst tc) \<Longrightarrow> \<not> list_all snd tc \<Longrightarrow> \<exists>n. map_of tc n = Some False"
  by (auto simp: list_all_iff)

lemma drain_complete_markers:
  "snd (drain tc polls) = All_complete \<Longrightarrow> map_of tc n = Some False
   \<Longrightarrow> \<exists>r e. TaskComplete n r e \<in> set (arrivals polls)"
proof (induction polls arbitrary: tc)
  case Nil
  then show ?case using pending_not_done [of tc n] by (simp add: drain_step)
next
  case (Cons p ps)
  have nd: "\<not> list_all snd tc" using Cons.prems(2) by (rule pending_not_done)
  show ?case
  proof (cases p)
    case (Disconnected d)
    with Cons.prems nd show ?thesis by (simp add: drain_step)
  next
    case (Stream_cancelled d)
    with Cons.prems nd show ?thesis by (simp add: drain_step)
  next
    case Timeout
    with Cons nd show ?thesis by (simp add: drain_step)
  next
    case (Got i)
    show ?thesis
    proof (cases i)
      case (Event s ev)
      with Got Cons nd show ?thesis
        by (cases "format_sse s ev") (auto simp: drain_step)
    next
      case (TaskComplete m r e)
      show ?thesis
      proof (cases "m = n")
        case True
        with Got TaskComplete show ?thesis by auto
      next
        case False
        then have "map_of (AList.update m True tc) n = Some False"
          using Cons.prems(2) by (simp add: update_conv')
        moreover have "snd (drain (AList.update m True tc) ps) = All_complete"
          using Cons.prems(1) Got TaskComplete nd by (simp add: drain_step)
        ultimately have "\<exists>r e. TaskComplete n r e \<in> set (arrivals ps)"
          using Cons.IH by blast
        with Got TaskComplete show ?thesis by auto
      qed
    qed
  qed
qed

lemma drain_disconnect:
  "snd (drain tc pre) = Still_polling \<Longrightarrow>
   drain tc (pre @ Disconnected d # rest) =
     (fst (drain tc pre) @ [Sse_cancelled], Client_disconnected (cancel_tasks d))"
proof (induction pre arbitrary: tc)
  case Nil
  then have "\<not> list_all snd tc" by (auto simp: drain_done)
  then show ?case by (simp add: drain_step)
next
  case (Cons p ps)
  have nd: "\<not> list_all snd tc" using Cons.prems by (auto simp: drain_done)
  show ?case
  proof (cases p)
    case (Got i)
    show ?thesis
    proof (cases i)
      case (Event s ev)
      with Got Cons nd show ?thesis
        by (cases "format_sse s ev") (auto simp: drain_step)
    next
      case (TaskComplete m r e)
      with Got Cons nd show ?thesis by (simp add: drain_step)
    qed
  qed (use Cons nd in \<open>simp_all add: drain_step\<close>)
qed

lemma format_sse_plain:
  "format_sse s ev = Some evs \<Longrightarrow>
     Sse_cancelled \<notin> set evs \<and> Sse_done \<notin> set evs \<and> (\<forall>r. Sse_result r \<notin> set evs)
     \<and> (\<forall>x. Sse_outcome_estimates x \<notin> set evs)"
  by (cases ev) (auto split: if_splits)

lemma drain_no_result:
  "Sse_done \<notin> set (fst (drain tc polls)) \<and> (\<forall>r. Sse_result r \<notin> set (fst (drain tc polls)))
   \<and> (\<forall>x. Sse_outcome_estimates x \<notin> set (fst (drain tc polls)))"
proof (induction polls arbitrary: tc)
  case Nil
  show ?case by (cases "list_all snd tc") (simp_all add: drain_done drain_step)
next
  case (Cons p ps)
  show ?case
  proof (cases "list_all snd tc")
    case True
    then show ?thesis by (simp add: drain_done)
  next
    case False
    show ?thesis
    proof (cases p)
      case (Got i)
      show ?thesis
      proof (cases i)
        case (Event s ev)
        with Got Cons False format_sse_plain [of s ev] show ?thesis
          by (cases "format_sse s ev") (auto simp: drain_step)
      next
        case (TaskComplete m r e)
        with Got Cons False show ?thesis by (simp add: drain_step)
      qed
    qed (use Cons False in \<open>simp_all add: drain_step\<close>)
  qed
qed

lemma drain_polling_no_cancelled:
  "snd (drain tc polls) = Still_polling \<Longrightarrow> Sse_cancelled \<notin> set (fst (drain tc polls))"
proof (induction polls arbitrary: tc)
  case Nil
  show ?case by (cases "list_all snd tc") (simp_all add: drain_done drain_step)
next
  case (Cons p ps)
  have nd: "\<not> list_all snd tc" using Cons.prems by (auto simp: drain_done)
  show ?case
  proof (cases p)
    case (Got i)
    show ?thesis
    proof (cases i)
      case (Event s ev)
      with Got Cons nd format_sse_plain [of s ev] show ?thesis
        by (cases "format_sse s ev") (auto simp: drain_step)
    next
      case (TaskComplete m r e)
      with Got Cons nd show ?thesis by (simp add: drain_step)
    qed
  qed (use Cons nd in \<open>simp_all add: drain_step\<close>)
qed

section \<open>Properties of the orchestrator\<close>

lemma stream_exit:
  "snd (snd (run_parallel_analysis_stream request key c now frun tf hrun prun polls))
   = snd (drain tasks_complete_init polls)"
  unfolding run_parallel_analysis_stream_def Let_def tasks_complete_init_def
  by (simp add: split_beta split: loop_exit.splits)

text \<open>
  C2. Whatever its collaborators do (success, an early return on empty data, an exception,
  a timeout), each job puts exactly one completion marker on the queue, as the last of its
  items, all of them attributed to it; and the draining loop is left through its condition
  only after a marker of each of the three jobs has been taken from the queue.
\<close>

theorem one_marker_per_job_and_loop_waits_for_all:
  "marker_last ''foundational'' (snd (run_foundational_in_thread title tf frun)) \<and>
   marker_last ''historical'' (snd (run_historical hrun)) \<and>
   marker_last ''x_sentiment'' (snd (run_prominent_figures prun)) \<and>
   (snd (snd (run_parallel_analysis_stream request key c now frun tf hrun prun polls)) = All_complete
    \<longrightarrow> (\<forall>n \<in> set running_tasks. \<exists>r e. TaskComplete n r e \<in> set (arrivals polls)))"
proof -
  have "\<exists>r e. TaskComplete n r e \<in> set (arrivals polls)"
    if a: "snd (drain tasks_complete_init polls) = All_complete" and n: "n \<in> set running_tasks" for n
  proof -
    from n have "map_of tasks_complete_init n = Some False"
      by (auto simp: running_tasks_def tasks_complete_init_def)
    with a show ?thesis by (rule drain_complete_markers)
  qed
  then show ?thesis
    using foundational_marker_last historical_marker_last prominent_marker_last
    by (simp add: stream_exit)
qed


text \<open>The theorem at three polls that give the three markers.\<close>

lemma marker_polls_complete:
  "drain tasks_complete_init
     [Got (TaskComplete ''foundational'' None None), Got (TaskComplete ''historical'' None None),
      Got (TaskComplete ''x_sentiment'' None None)]
   = ([Sse_task_complete ''foundational'', Sse_task_complete ''historical'',
       Sse_task_complete ''x_sentiment''], All_complete)"
  by (simp add: tasks_complete_init_def drain_marker drain_done)

theorem one_marker_per_job_and_loop_waits_for_all_witness:
  "(\<exists>r e. TaskComplete ''foundational'' r e \<in> set (arrivals
      [Got (TaskComplete ''foundational'' None None), Got (TaskComplete ''historical'' None None),
       Got (TaskComplete ''x_sentiment'' None None)])) \<and>
   (\<exists>r e. TaskComplete ''historical'' r e \<in> set (arrivals
      [Got (TaskComplete ''foundational'' None None), Got (TaskComplete ''historical'' None None),
       Got (TaskComplete ''x_sentiment'' None None)])) \<and>
   (\<exists>r e. TaskComplete ''x_sentiment'' r e \<in> set (arrivals
      [Got (TaskComplete ''foundational'' None None), Got (TaskComplete ''historical'' None None),
       Got (TaskComplete ''x_sentiment'' None None)])) \<and>
   marker_last ''historical'' (snd (run_historical (Inl ''timed out'')))"
  using one_marker_per_job_and_loop_waits_for_all
    [of "''t''" 0 "Global_timeout ''timed out''" "Inl ''timed out''"
        "\<lparr>generate_call = Inl ''e'', fetch_call = Inl ''e'', temp_file_write = None,
          analyze_call = Inl ''e''\<rparr>"
        "\<lparr>market_id = None, market_title = ''t'', market_url = None, total_volume_usd = None,
          outcomes = [], force_refresh = False\<rparr>"
        "''k''" Map.empty 0
        "[Got (TaskComplete ''foundational'' None None), Got (TaskComplete ''historical'' None None),
          Got (TaskComplete ''x_sentiment'' None None)]"]
  by (simp add: stream_exit marker_polls_complete running_tasks_def)

text \<open>
  C3. When the check at the top of the loop finds the client gone while the loop is still
  running (not every job has completed), the stream is the events relayed so far followed
  by one \<open>cancelled\<close> event and nothing more, with no \<open>outcome_estimates\<close>, \<open>result\<close> or \<open>done\<close>
  event; the tasks cancelled are exactly those not done; and the cache is left as it was.
\<close>

theorem disconnect_cancels_without_caching:
  assumes "snd (drain tasks_complete_init pre) = Still_polling"
  shows "run_parallel_analysis_stream request key c now frun tf hrun prun
           (pre @ Disconnected done # rest)
         = ([Sse_status_init key, Sse_status_parallel_start] @ fst (drain tasks_complete_init pre)
              @ [Sse_cancelled],
            c, Client_disconnected (cancel_tasks done))
       \<and> Sse_cancelled \<notin> set (fst (drain tasks_complete_init pre))
       \<and> Sse_done \<notin> set (fst (drain tasks_complete_init pre))
       \<and> (\<forall>r. Sse_result r \<notin> set (fst (drain tasks_complete_init pre)))
       \<and> (\<forall>x. Sse_outcome_estimates x \<notin> set (fst (drain tasks_complete_init pre)))
       \<and> set (cancel_tasks done) = set running_tasks - set done"
proof -
  have d: "drain tasks_complete_init (pre @ Disconnected done # rest) =
     (fst (drain tasks_complete_init pre) @ [Sse_cancelled], Client_disconnected (cancel_tasks done))"
    using assms by (rule drain_disconnect)
  have r: "run_parallel_analysis_stream request key c now frun tf hrun prun
           (pre @ Disconnected done # rest)
         = ([Sse_status_init key, Sse_status_parallel_start] @ fst (drain tasks_complete_init pre)
              @ [Sse_cancelled],
            c, Client_disconnected (cancel_tasks done))"
    unfolding run_parallel_analysis_stream_def Let_def d by simp
  have s: "set (cancel_tasks done) = set running_tasks - set done"
    by (auto simp: cancel_tasks_def)
  show ?thesis
    using r s drain_no_result [of tasks_complete_init pre]
      drain_polling_no_cancelled [OF assms] by simp
qed

text \<open>The theorem at a client that goes after the historical job has completed.\<close>

lemma polling_example:
  "drain tasks_complete_init
     [Got (Event ''historical'' (Status Starting_historical_research)), Timeout,
      Got (TaskComplete ''historical'' None None)]
   = ([Sse_status ''historical'' Starting_historical_research, Sse_task_complete ''historical''],
      Still_polling)"
  by (simp add: tasks_complete_init_def drain_step)

theorem disconnect_cancels_without_caching_witness:
  "run_parallel_analysis_stream
     \<lparr>market_id = None, market_title = ''t'', market_url = None, total_volume_usd = None,
      outcomes = [], force_refresh = False\<rparr>
     ''k'' Map.empty 0 (Global_timeout ''timed out'') 0 (Inl ''e'')
     \<lparr>generate_call = Inl ''e'', fetch_call = Inl ''e'', temp_file_write = None,
      analyze_call = Inl ''e''\<rparr>
     ([Got (Event ''historical'' (Status Starting_historical_research)), Timeout,
       Got (TaskComplete ''historical'' None None)] @ Disconnected [''historical''] # [Timeout])
   = ([Sse_status_init ''k'', Sse_status_parallel_start,
       Sse_status ''historical'' Starting_historical_research, Sse_task_complete ''historical'',
       Sse_cancelled],
      Map.empty, Client_disconnected [''foundational'', ''x_sentiment''])"
  using disconnect_cancels_without_caching
    [of "[Got (Event ''historical'' (Status Starting_historical_research)), Timeout,
          Got (TaskComplete ''historical'' None None)]"
        "\<lparr>market_id = None, market_title = ''t'', market_url = None, total_volume_usd = None,
          outcomes = [], force_refresh = False\<rparr>"
        "''k''" Map.empty 0 "Global_timeout ''timed out''" 0 "Inl ''e''"
        "\<lparr>generate_call = Inl ''e'', fetch_call = Inl ''e'', temp_file_write = None,
          analyze_call = Inl ''e''\<rparr>"
        "[''historical'']" "[Timeout]"]
  by (simp add: polling_example cancel_tasks_def running_tasks_def)

end
